theory Spec2Isabelle
  imports Main "HOL-Library.AList"
begin

section \<open>Python values handled by handler.py\<close>

text \<open>
  The job payload, the engine's JSON answers and the event frames are JSON documents.
  Numbers are restricted to integers. A dict is an association list read with
  \<open>map_of\<close> (the first binding of a key is the dict's); Python's \<open>None\<close> is \<open>JNull\<close>.
\<close>

datatype json =
    JNull
  | JBool bool
  | JNum int
  | JStr string
  | JList "json list"
  | JObj "(string \<times> json) list"

type_synonym bytes = string

text \<open>The exceptions the handler can meet. The argument of \<open>RuntimeError\<close> is the value
  it was raised with; \<open>ValueError\<close> carries its message.\<close>

datatype exn =
    AttributeError
  | TypeError
  | JSONDecodeError
  | RequestException
  | WebSocketException
  | DecodeError
  | KeyError
  | ValueError string
  | RuntimeError json

text \<open>\<open>x.get(key, default)\<close>: only a dict has the method.\<close>

fun py_get :: "json \<Rightarrow> string \<Rightarrow> json \<Rightarrow> exn + json" where
  "py_get (JObj d) k dflt = Inr (case map_of d k of None \<Rightarrow> dflt | Some v \<Rightarrow> v)"
| "py_get _ k dflt = Inl AttributeError"

text \<open>Truth value of a Python object, as \<open>if x\<close>, \<open>not x\<close> and \<open>x or y\<close> take it.\<close>

fun truthy :: "json \<Rightarrow> bool" where
  "truthy JNull = False"
| "truthy (JBool b) = b"
| "truthy (JNum n) = (n \<noteq> 0)"
| "truthy (JStr s) = (s \<noteq> [])"
| "truthy (JList xs) = (xs \<noteq> [])"
| "truthy (JObj d) = (d \<noteq> [])"

section \<open>validate_input\<close>

record validated =
  workflow :: json
  images :: json
  comfy_org_api_key :: json

text \<open>\<open>isinstance(image, dict) and "name" in image and "image" in image\<close>\<close>

fun image_entry_ok :: "json \<Rightarrow> bool" where
  "image_entry_ok (JObj d) = (map_of d ''name'' \<noteq> None \<and> map_of d ''image'' \<noteq> None)"
| "image_entry_ok _ = False"

text \<open>\<open>not isinstance(images, list) or not all(... for image in images)\<close>\<close>

fun images_invalid :: "json \<Rightarrow> bool" where
  "images_invalid (JList xs) = (\<not> list_all image_entry_ok xs)"
| "images_invalid _ = True"

text \<open>A word between single quotes, for the messages that quote a key.\<close>

definition quoted :: "string \<Rightarrow> string" where
  "quoted s = CHR 0x27 # s @ [CHR 0x27]"

definition invalid_images_msg :: string where
  "invalid_images_msg =
     quoted ''images'' @ '' must be a list of objects with '' @ quoted ''name'' @
     '' and '' @ quoted ''image'' @ '' keys''"

definition missing_workflow_msg :: string where
  "missing_workflow_msg = ''Missing '' @ quoted ''workflow'' @ '' parameter''"

text \<open>Lines 31 to 46, on the payload once a string has been parsed.\<close>

definition validate_fields :: "json \<Rightarrow> exn + (validated option \<times> string option)" where
  "validate_fields job_input =
     (case py_get job_input ''workflow'' JNull of
        Inl e \<Rightarrow> Inl e
      | Inr wflow \<Rightarrow>
          if wflow = JNull then Inr (None, Some missing_workflow_msg)
          else (case py_get job_input ''images'' JNull of
                  Inl e \<Rightarrow> Inl e
                | Inr imgs \<Rightarrow>
                    if imgs \<noteq> JNull \<and> images_invalid imgs
                    then Inr (None, Some invalid_images_msg)
                    else (case py_get job_input ''comfy_org_api_key'' JNull of
                            Inl e \<Rightarrow> Inl e
                          | Inr key \<Rightarrow>
                              Inr (Some \<lparr>workflow = wflow, images = imgs,
                                         comfy_org_api_key = key\<rparr>, None))))"

text \<open>\<open>loads\<close> is \<open>json.loads\<close>; \<open>None\<close> stands for its \<open>JSONDecodeError\<close>.\<close>

definition validate_input ::
  "(string \<Rightarrow> json option) \<Rightarrow> json \<Rightarrow> exn + (validated option \<times> string option)" where
  "validate_input loads job_input =
     (case job_input of
        JNull \<Rightarrow> Inr (None, Some ''Please provide input'')
      | JStr s \<Rightarrow>
          (case loads s of
             None \<Rightarrow> Inr (None, Some ''Invalid JSON format in input'')
           | Some parsed \<Rightarrow> validate_fields parsed)
      | _ \<Rightarrow> validate_fields job_input)"

section \<open>HTTP answers\<close>

record response =
  status_code :: int
  text_body :: string
  json_body :: "json option"
  content :: bytes

text \<open>What a call of the \<open>requests\<close> library gives: a response, or a
  \<open>RequestException\<close>.\<close>

datatype http_outcome = Response response | RequestFailed

text \<open>\<open>response.raise_for_status()\<close> raises for a 4xx or 5xx status.\<close>

definition raise_for_status :: "response \<Rightarrow> exn + unit" where
  "raise_for_status r =
     (if 400 \<le> status_code r \<and> status_code r < 600 then Inl RequestException else Inr ())"

section \<open>check_server\<close>

text \<open>The loop of lines 50 to 57: \<open>k\<close> iterations are left, \<open>i\<close> probes have been sent,
  \<open>probe i\<close> is what the next \<open>requests.get\<close> gives. The result is the returned truth
  value and the number of probes sent.\<close>

fun check_loop :: "(nat \<Rightarrow> http_outcome) \<Rightarrow> nat \<Rightarrow> nat \<Rightarrow> bool \<times> nat" where
  "check_loop probe 0 i = (False, i)"
| "check_loop probe (Suc k) i =
     (case probe i of
        Response r \<Rightarrow>
          if status_code r = 200 then (True, Suc i) else check_loop probe k (Suc i)
      | RequestFailed \<Rightarrow> check_loop probe k (Suc i))"

text \<open>\<open>range(CHECK_RETRIES)\<close> is empty for a count that is not positive.\<close>

definition check_server :: "int \<Rightarrow> (nat \<Rightarrow> http_outcome) \<Rightarrow> bool \<times> nat" where
  "check_server retries probe = check_loop probe (nat retries) 0"

section \<open>strip_data_uri\<close>

text \<open>\<open>data.split(",", 1)\<close>: the pieces before and after the first separator, or the
  whole string alone when it has none.\<close>

fun split_once :: "char \<Rightarrow> string \<Rightarrow> string list" where
  "split_once c [] = [Nil]"
| "split_once c (x # xs) =
     (if x = c then [Nil, xs]
      else (case split_once c xs of
              [] \<Rightarrow> []
            | h # t \<Rightarrow> (x # h) # t))"

definition strip_data_uri :: "string \<Rightarrow> string" where
  "strip_data_uri data =
     (if CHR '','' \<in> set data then split_once (CHR '','') data ! 1 else data)"

section \<open>More of Python\<close>

text \<open>\<open>a == b\<close> on JSON values: \<open>True\<close> and \<open>False\<close> equal \<open>1\<close> and \<open>0\<close>, lists are
  compared item by item, dicts by their keys and the values bound to them.\<close>

function (sequential) py_eq :: "json \<Rightarrow> json \<Rightarrow> bool" where
  "py_eq JNull JNull = True"
| "py_eq (JBool a) (JBool b) = (a = b)"
| "py_eq (JBool a) (JNum n) = (n = (if a then 1 else 0))"
| "py_eq (JNum n) (JBool a) = (n = (if a then 1 else 0))"
| "py_eq (JNum m) (JNum n) = (m = n)"
| "py_eq (JStr s) (JStr t) = (s = t)"
| "py_eq (JList xs) (JList ys) =
     (length xs = length ys \<and> list_all (\<lambda>(x, y). py_eq x y) (zip xs ys))"
| "py_eq (JObj d) (JObj e) =
     (set (map fst d) = set (map fst e) \<and>
      list_all (\<lambda>(k, v). map_of d k = Some v \<longrightarrow>
                  (case map_of e k of None \<Rightarrow> False | Some w \<Rightarrow> py_eq v w)) d)"
| "py_eq _ _ = False"
  by pat_completeness auto
termination
proof (relation "measure (\<lambda>(a, b). size a)", goal_cases)
  case 1
  show ?case by simp
next
  case (2 xs ys z x y)
  then have "x \<in> set xs" by (auto dest: set_zip_leftD)
  then have "size x \<le> size_list size xs" by (rule size_list_estimation') simp
  then show ?case by simp
next
  case (3 d e z k v w)
  then have "size v \<le> size_list (size_prod (\<lambda>x. 0) size) d"
    by (intro size_list_estimation' [of "(k, v)"]) auto
  then show ?case by simp
qed

text \<open>\<open>x[key]\<close> with a string key: \<open>KeyError\<close> on a dict without the key, \<open>TypeError\<close>
  on a value that cannot be subscripted with a string.\<close>

fun py_getitem :: "json \<Rightarrow> string \<Rightarrow> exn + json" where
  "py_getitem (JObj d) k = (case map_of d k of None \<Rightarrow> Inl KeyError | Some v \<Rightarrow> Inr v)"
| "py_getitem _ k = Inl TypeError"

text \<open>\<open>d.get(key, default)\<close> with a key that is itself a JSON value: the keys of a JSON
  dict are strings, a list or a dict cannot be hashed, every other key is absent.\<close>

fun py_get_key :: "json \<Rightarrow> json \<Rightarrow> json \<Rightarrow> exn + json" where
  "py_get_key (JObj d) (JStr k) dflt = Inr (case map_of d k of None \<Rightarrow> dflt | Some v \<Rightarrow> v)"
| "py_get_key (JObj d) (JList xs) dflt = Inl TypeError"
| "py_get_key (JObj d) (JObj e) dflt = Inl TypeError"
| "py_get_key (JObj d) key dflt = Inr dflt"
| "py_get_key _ key dflt = Inl AttributeError"

text \<open>\<open>d.values()\<close>: one value for each key.\<close>

fun py_values :: "json \<Rightarrow> exn + json list" where
  "py_values (JObj d) = Inr (map snd (AList.clearjunk d))"
| "py_values _ = Inl AttributeError"

text \<open>The items a \<open>for\<close> loop takes from a value: those of a list, the characters of a
  string, the keys of a dict; nothing else can be iterated.\<close>

fun py_iter :: "json \<Rightarrow> exn + json list" where
  "py_iter (JList xs) = Inr xs"
| "py_iter (JStr s) = Inr (map (\<lambda>c. JStr [c]) s)"
| "py_iter (JObj d) = Inr (map (\<lambda>p. JStr (fst p)) (AList.clearjunk d))"
| "py_iter _ = Inl TypeError"

text \<open>A \<open>for\<close> loop whose body updates a state and may raise.\<close>

fun for_each :: "('a \<Rightarrow> 's \<Rightarrow> exn + 's) \<Rightarrow> 'a list \<Rightarrow> 's \<Rightarrow> exn + 's" where
  "for_each body [] s = Inr s"
| "for_each body (x # xs) s =
     (case body x s of Inl e \<Rightarrow> Inl e | Inr s' \<Rightarrow> for_each body xs s')"

section \<open>The world outside the handler\<close>

text \<open>What \<open>ws.recv()\<close> gives: the receive timeout, another exception of the socket,
  a binary frame, a text frame.\<close>

datatype frame = RecvTimeout | RecvFailed | BinaryFrame bytes | TextFrame string

text \<open>The calls made on the socket object, in order.\<close>

datatype ws_op = Connect | SetTimeout | Recv | Close

text \<open>What the \<open>requests.post\<close> of line 84 gives: a response, a \<open>RequestException\<close>, or an
  exception of another class (the file name \<open>name\<close> is passed on as the request has it,
  and the library may refuse a value that is not a string).\<close>

datatype upload_outcome = Uploaded response | UploadFailed | UploadRaised exn

text \<open>
  The library functions and the engine's answers are parameters. \<open>get_root i\<close> answers the
  probe sent after \<open>i\<close> earlier ones, \<open>post_upload_image i\<close> the upload of the image at
  position \<open>i\<close>, \<open>get_view n\<close> the download made after \<open>n\<close> earlier ones.
  \<open>ws_connect url\<close> tells whether the connect succeeds, \<open>ws_settimeout\<close> is the message
  of the \<open>ValueError\<close> that \<open>ws.settimeout(WS_RECV_TIMEOUT)\<close> raises, if it does (the
  value is read from the environment unchecked, and a negative one is refused),
  \<open>ws_frames\<close> are the frames received so far.
\<close>

record env =
  json_loads :: "string \<Rightarrow> json option"
  py_repr :: "json \<Rightarrow> string"
  exc_text :: "exn \<Rightarrow> string"
  b64decode :: "string \<Rightarrow> bytes option"
  b64encode :: "bytes \<Rightarrow> string"
  COMFY_HOST :: string
  CHECK_RETRIES :: int
  COMFY_ORG_API_KEY :: "string option"
  uuid4 :: string
  get_root :: "nat \<Rightarrow> http_outcome"
  post_upload_image :: "nat \<Rightarrow> json \<Rightarrow> bytes \<Rightarrow> upload_outcome"
  post_prompt :: "json \<Rightarrow> http_outcome"
  ws_connect :: "string \<Rightarrow> bool"
  ws_settimeout :: "string option"
  ws_frames :: "frame list"
  get_history :: "json \<Rightarrow> http_outcome"
  get_view :: "nat \<Rightarrow> json \<Rightarrow> json \<Rightarrow> json \<Rightarrow> http_outcome"

text \<open>\<open>str(x)\<close>, also what an f-string puts for \<open>{x}\<close>.\<close>

definition py_str :: "env \<Rightarrow> json \<Rightarrow> string" where
  "py_str env v = (case v of JStr s \<Rightarrow> s | _ \<Rightarrow> py_repr env v)"

text \<open>\<open>str(exc)\<close>\<close>

definition str_exc :: "env \<Rightarrow> exn \<Rightarrow> string" where
  "str_exc env e =
     (case e of
        ValueError m \<Rightarrow> m
      | RuntimeError v \<Rightarrow> py_str env v
      | _ \<Rightarrow> exc_text env e)"

section \<open>upload_images\<close>

text \<open>The loop of lines 71 to 87 from the image at position \<open>i\<close> on. The \<open>except\<close> clause
  of line 86 catches a \<open>RequestException\<close>; any other exception leaves the function.\<close>

fun upload_loop :: "env \<Rightarrow> nat \<Rightarrow> json list \<Rightarrow> exn + string option" where
  "upload_loop env i [] = Inr None"
| "upload_loop env i (entry # rest) =
     (case py_getitem entry ''name'' of
        Inl e \<Rightarrow> Inl e
      | Inr name \<Rightarrow>
          (case py_getitem entry ''image'' of
             Inl e \<Rightarrow> Inl e
           | Inr img \<Rightarrow>
               (case b64decode env (strip_data_uri (py_str env img)) of
                  None \<Rightarrow>
                    Inr (Some (''Failed to decode base64 for '' @ py_str env name @ '': '' @
                               str_exc env DecodeError))
                | Some blob \<Rightarrow>
                    (case post_upload_image env i name blob of
                       UploadRaised e \<Rightarrow> Inl e
                     | UploadFailed \<Rightarrow>
                         Inr (Some (''Failed to upload '' @ py_str env name @ '': '' @
                                    str_exc env RequestException))
                     | Uploaded r \<Rightarrow>
                         (case raise_for_status r of
                            Inl e \<Rightarrow>
                              Inr (Some (''Failed to upload '' @ py_str env name @ '': '' @
                                         str_exc env e))
                          | Inr u \<Rightarrow> upload_loop env (Suc i) rest)))))"

definition upload_images :: "env \<Rightarrow> json \<Rightarrow> exn + string option" where
  "upload_images env imgs =
     (if \<not> truthy imgs then Inr None
      else (case py_iter imgs of
              Inl e \<Rightarrow> Inl e
            | Inr xs \<Rightarrow> upload_loop env 0 xs))"

section \<open>queue_workflow\<close>

definition queue_workflow :: "env \<Rightarrow> json \<Rightarrow> string \<Rightarrow> json \<Rightarrow> exn + json" where
  "queue_workflow env wflow client_id api_key =
     (let key = (if truthy api_key then api_key
                 else (case COMFY_ORG_API_KEY env of None \<Rightarrow> JNull | Some k \<Rightarrow> JStr k));
          payload = JObj ([(''prompt'', wflow), (''client_id'', JStr client_id)] @
                          (if truthy key
                           then [(''extra_data'', JObj [(''api_key_comfy_org'', key)])]
                           else []))
      in (case post_prompt env payload of
            RequestFailed \<Rightarrow> Inl RequestException
          | Response r \<Rightarrow>
              if status_code r = 400
              then Inl (ValueError (''Workflow validation failed: '' @ text_body r))
              else (case raise_for_status r of
                      Inl e \<Rightarrow> Inl e
                    | Inr u \<Rightarrow>
                        (case json_body r of
                           None \<Rightarrow> Inl JSONDecodeError
                         | Some j \<Rightarrow> Inr j))))"

section \<open>wait_for_completion\<close>

text \<open>What one turn of the \<open>while True\<close> loop does: go round again, \<open>return\<close>, or raise.\<close>

datatype step = Continue | Return | Raise exn

text \<open>Lines 120 to 122.\<close>

definition on_executing :: "json \<Rightarrow> json \<Rightarrow> step" where
  "on_executing prompt_id data =
     (case py_get data ''data'' (JObj []) of
        Inl e \<Rightarrow> Raise e
      | Inr payload \<Rightarrow>
          (case py_get payload ''node'' JNull of
             Inl e \<Rightarrow> Raise e
           | Inr node \<Rightarrow>
               if node = JNull
               then (case py_get payload ''prompt_id'' JNull of
                       Inl e \<Rightarrow> Raise e
                     | Inr p \<Rightarrow> if py_eq p prompt_id then Return else Continue)
               else Continue))"

text \<open>Lines 124 to 126.\<close>

definition on_execution_error :: "json \<Rightarrow> json \<Rightarrow> step" where
  "on_execution_error prompt_id data =
     (case py_get data ''data'' (JObj []) of
        Inl e \<Rightarrow> Raise e
      | Inr payload \<Rightarrow>
          (case py_get payload ''prompt_id'' JNull of
             Inl e \<Rightarrow> Raise e
           | Inr p \<Rightarrow>
               if py_eq p prompt_id
               then (case py_get payload ''exception_message'' JNull of
                       Inl e \<Rightarrow> Raise e
                     | Inr m \<Rightarrow>
                         Raise (RuntimeError
                                  (if truthy m then m else JStr ''ComfyUI execution error'')))
               else Continue))"

text \<open>Lines 118 to 126, on the parsed message: the two \<open>if\<close> statements in turn.\<close>

definition on_message :: "json \<Rightarrow> json \<Rightarrow> step" where
  "on_message prompt_id data =
     (case py_get data ''type'' JNull of
        Inl e \<Rightarrow> Raise e
      | Inr event_type \<Rightarrow>
          (case (if event_type = JStr ''executing'' then on_executing prompt_id data
                 else Continue) of
             Continue \<Rightarrow>
               if event_type = JStr ''execution_error''
               then on_execution_error prompt_id data
               else Continue
           | Return \<Rightarrow> Return
           | Raise e \<Rightarrow> Raise e))"

text \<open>Lines 111 to 126: one received frame.\<close>

definition on_frame :: "(string \<Rightarrow> json option) \<Rightarrow> json \<Rightarrow> frame \<Rightarrow> step" where
  "on_frame loads prompt_id f =
     (case f of
        RecvTimeout \<Rightarrow> Continue
      | RecvFailed \<Rightarrow> Raise WebSocketException
      | BinaryFrame b \<Rightarrow> Continue
      | TextFrame message \<Rightarrow>
          (case loads message of
             None \<Rightarrow> Raise JSONDecodeError
           | Some data \<Rightarrow> on_message prompt_id data))"

text \<open>The loop over the frames received so far, with the calls of \<open>ws.recv\<close> it makes.
  \<open>None\<close>: the loop has not left yet and waits for the next frame.\<close>

fun wait_loop ::
  "(string \<Rightarrow> json option) \<Rightarrow> json \<Rightarrow> frame list \<Rightarrow> (exn + unit) option \<times> ws_op list" where
  "wait_loop loads prompt_id [] = (None, [])"
| "wait_loop loads prompt_id (f # fs) =
     (case on_frame loads prompt_id f of
        Continue \<Rightarrow>
          (case wait_loop loads prompt_id fs of (r, ops) \<Rightarrow> (r, Recv # ops))
      | Return \<Rightarrow> (Some (Inr ()), [Recv])
      | Raise e \<Rightarrow> (Some (Inl e), [Recv]))"

text \<open>The outcome and the calls made on the socket. \<open>ws.connect\<close> (line 107) and
  \<open>ws.settimeout\<close> (line 108) come before the \<open>try\<close>, so an exception of either leaves
  the function at once; \<open>ws.close\<close> is the \<open>finally\<close> clause of the \<open>try\<close>.\<close>

definition wait_for_completion ::
  "env \<Rightarrow> json \<Rightarrow> string \<Rightarrow> (exn + unit) option \<times> ws_op list" where
  "wait_for_completion env prompt_id client_id =
     (let ws_url = ''ws://'' @ COMFY_HOST env @ ''/ws?clientId='' @ client_id
      in if \<not> ws_connect env ws_url then (Some (Inl WebSocketException), [Connect])
         else (case ws_settimeout env of
                 Some msg \<Rightarrow> (Some (Inl (ValueError msg)), [Connect, SetTimeout])
               | None \<Rightarrow>
                   (case wait_loop (json_loads env) prompt_id (ws_frames env) of
                      (None, ops) \<Rightarrow> (None, [Connect, SetTimeout] @ ops)
                    | (Some r, ops) \<Rightarrow> (Some r, [Connect, SetTimeout] @ ops @ [Close]))))"

section \<open>fetch_history, fetch_output_bytes\<close>

definition fetch_history :: "env \<Rightarrow> json \<Rightarrow> exn + json" where
  "fetch_history env prompt_id =
     (case get_history env prompt_id of
        RequestFailed \<Rightarrow> Inl RequestException
      | Response r \<Rightarrow>
          (case raise_for_status r of
             Inl e \<Rightarrow> Inl e
           | Inr u \<Rightarrow>
               (case json_body r of
                  None \<Rightarrow> Inl JSONDecodeError
                | Some j \<Rightarrow> Inr j)))"

definition fetch_output_bytes :: "env \<Rightarrow> nat \<Rightarrow> json \<Rightarrow> json \<Rightarrow> json \<Rightarrow> exn + bytes" where
  "fetch_output_bytes env n filename subfolder output_type =
     (case get_view env n filename subfolder output_type of
        RequestFailed \<Rightarrow> Inl RequestException
      | Response r \<Rightarrow>
          (case raise_for_status r of
             Inl e \<Rightarrow> Inl e
           | Inr u \<Rightarrow> Inr (content r)))"

section \<open>handler\<close>

definition error_result :: "string \<Rightarrow> json" where
  "error_result msg = JObj [(''error'', JStr msg)]"

definition output_record :: "env \<Rightarrow> json \<Rightarrow> bytes \<Rightarrow> json" where
  "output_record env filename data =
     JObj [(''filename'', filename), (''type'', JStr ''base64''),
           (''data'', JStr (b64encode env data))]"

text \<open>The part the three inner loops share (lines 180 to 194, 197 to 211, 214 to 228):
  an entry without a file name is passed over, another is downloaded and appended to the
  bucket. The state is the number of downloads made and the bucket.\<close>

definition fetch_entry :: "env \<Rightarrow> json \<Rightarrow> nat \<times> json list \<Rightarrow> exn + (nat \<times> json list)" where
  "fetch_entry env info st =
     (case py_get info ''filename'' JNull of
        Inl e \<Rightarrow> Inl e
      | Inr filename \<Rightarrow>
          if \<not> truthy filename then Inr st
          else (case py_get info ''subfolder'' (JStr []) of
                  Inl e \<Rightarrow> Inl e
                | Inr subfolder \<Rightarrow>
                    (case py_get info ''type'' JNull of
                       Inl e \<Rightarrow> Inl e
                     | Inr output_type \<Rightarrow>
                         (case fetch_output_bytes env (fst st) filename subfolder
                                 output_type of
                            Inl e \<Rightarrow> Inl e
                          | Inr data \<Rightarrow>
                              Inr (Suc (fst st),
                                   snd st @ [output_record env filename data])))))"

text \<open>The body of the loop over \<open>images\<close>: lines 178 and 179, then the shared part. The
  loops over \<open>videos\<close> and \<open>gifs\<close> have the shared part only.\<close>

definition image_entry :: "env \<Rightarrow> json \<Rightarrow> nat \<times> json list \<Rightarrow> exn + (nat \<times> json list)" where
  "image_entry env info st =
     (case py_get info ''type'' JNull of
        Inl e \<Rightarrow> Inl e
      | Inr t \<Rightarrow> if t = JStr ''temp'' then Inr st else fetch_entry env info st)"

text \<open>One bucket's loop over \<open>node_output.get(kind, [])\<close>.\<close>

definition collect_kind ::
  "(json \<Rightarrow> nat \<times> json list \<Rightarrow> exn + (nat \<times> json list)) \<Rightarrow> json \<Rightarrow> string \<Rightarrow>
   nat \<times> json list \<Rightarrow> exn + (nat \<times> json list)" where
  "collect_kind body node_output kind st =
     (case py_get node_output kind (JList []) of
        Inl e \<Rightarrow> Inl e
      | Inr infos \<Rightarrow>
          (case py_iter infos of
             Inl e \<Rightarrow> Inl e
           | Inr xs \<Rightarrow> for_each body xs st))"

text \<open>The body of the loop over \<open>outputs.values()\<close> (lines 177 to 228). The state is the
  number of downloads made and the three buckets.\<close>

definition collect_node ::
  "env \<Rightarrow> json \<Rightarrow> nat \<times> json list \<times> json list \<times> json list \<Rightarrow>
   exn + (nat \<times> json list \<times> json list \<times> json list)" where
  "collect_node env node_output st =
     (case st of (n, imgs, videos, gifs) \<Rightarrow>
        (case collect_kind (image_entry env) node_output ''images'' (n, imgs) of
           Inl e \<Rightarrow> Inl e
         | Inr (n1, imgs1) \<Rightarrow>
             (case collect_kind (fetch_entry env) node_output ''videos'' (n1, videos) of
                Inl e \<Rightarrow> Inl e
              | Inr (n2, videos1) \<Rightarrow>
                  (case collect_kind (fetch_entry env) node_output ''gifs'' (n2, gifs) of
                     Inl e \<Rightarrow> Inl e
                   | Inr (n3, gifs1) \<Rightarrow> Inr (n3, imgs1, videos1, gifs1)))))"

definition no_outputs_result :: json where
  "no_outputs_result =
     JObj [(''status'', JStr ''success_no_outputs''), (''images'', JList []),
           (''videos'', JList []), (''gifs'', JList [])]"

text \<open>Lines 230 to 239.\<close>

definition build_response :: "json list \<Rightarrow> json list \<Rightarrow> json list \<Rightarrow> json" where
  "build_response imgs videos gifs =
     (if imgs = [] \<and> videos = [] \<and> gifs = [] then no_outputs_result
      else JObj ((if imgs \<noteq> [] then [(''images'', JList imgs)] else []) @
                 (if videos \<noteq> [] then [(''videos'', JList videos)] else []) @
                 (if gifs \<noteq> [] then [(''gifs'', JList gifs)] else [])))"

text \<open>Lines 169 to 239: from the history of the finished job to the response.\<close>

definition collect_outputs :: "env \<Rightarrow> json \<Rightarrow> exn + json" where
  "collect_outputs env prompt_id =
     (case fetch_history env prompt_id of
        Inl e \<Rightarrow> Inl e
      | Inr history \<Rightarrow>
          (case py_get_key history prompt_id (JObj []) of
             Inl e \<Rightarrow> Inl e
           | Inr prompt_history \<Rightarrow>
               (case py_get prompt_history ''outputs'' (JObj []) of
                  Inl e \<Rightarrow> Inl e
                | Inr outputs \<Rightarrow>
                    (case py_values outputs of
                       Inl e \<Rightarrow> Inl e
                     | Inr node_outputs \<Rightarrow>
                         (case for_each (collect_node env) node_outputs (0, [], [], []) of
                            Inl e \<Rightarrow> Inl e
                          | Inr (n, imgs, videos, gifs) \<Rightarrow>
                              Inr (build_response imgs videos gifs))))))"

text \<open>The body of the \<open>try\<close> statement (lines 159 to 239). \<open>None\<close>: still waiting in
  \<open>wait_for_completion\<close>.\<close>

definition run_job :: "env \<Rightarrow> validated \<Rightarrow> string \<Rightarrow> (exn + json) option" where
  "run_job env v client_id =
     (case queue_workflow env (workflow v) client_id (comfy_org_api_key v) of
        Inl e \<Rightarrow> Some (Inl e)
      | Inr queued \<Rightarrow>
          (case py_get queued ''prompt_id'' JNull of
             Inl e \<Rightarrow> Some (Inl e)
           | Inr prompt_id \<Rightarrow>
               if \<not> truthy prompt_id
               then Some (Inr (error_result
                      (''Missing prompt_id in queue response: '' @ py_str env queued)))
               else (case fst (wait_for_completion env prompt_id client_id) of
                       None \<Rightarrow> None
                     | Some (Inl e) \<Rightarrow> Some (Inl e)
                     | Some (Inr u) \<Rightarrow> Some (collect_outputs env prompt_id))))"

text \<open>\<open>if error:\<close> on a value that is \<open>None\<close> or a string.\<close>

definition is_set :: "string option \<Rightarrow> bool" where
  "is_set m = (case m of None \<Rightarrow> False | Some s \<Rightarrow> s \<noteq> [])"

text \<open>
  The handler. \<open>None\<close>: it has not returned with the frames received so far;
  \<open>Some (Inl e)\<close>: the exception \<open>e\<close> leaves the handler; \<open>Some (Inr r)\<close>: it returns \<open>r\<close>.
  Only the \<open>try\<close> statement has an \<open>except\<close> clause, which turns every exception of its
  body into an error result.
\<close>

definition handler :: "env \<Rightarrow> json \<Rightarrow> (exn + json) option" where
  "handler env job =
     (case py_get job ''input'' JNull of
        Inl e \<Rightarrow> Some (Inl e)
      | Inr job_input \<Rightarrow>
          (case validate_input (json_loads env) job_input of
             Inl e \<Rightarrow> Some (Inl e)
           | Inr (checked, error) \<Rightarrow>
               if is_set error
               then Some (Inr (error_result (case error of None \<Rightarrow> [] | Some m \<Rightarrow> m)))
               else if \<not> fst (check_server (CHECK_RETRIES env) (get_root env))
               then Some (Inr (error_result
                      (''ComfyUI server ('' @ COMFY_HOST env @ '') not reachable.'')))
               else (case checked of
                       None \<Rightarrow> Some (Inl AttributeError)
                     | Some v \<Rightarrow>
                         (case upload_images env (images v) of
                            Inl e \<Rightarrow> Some (Inl e)
                          | Inr upload_error \<Rightarrow>
                              if is_set upload_error
                              then Some (Inr (error_result
                                     (case upload_error of None \<Rightarrow> [] | Some m \<Rightarrow> m)))
                              else (case run_job env v (uuid4 env) of
                                      None \<Rightarrow> None
                                    | Some (Inl e) \<Rightarrow>
                                        Some (Inr (error_result (str_exc env e)))
                                    | Some (Inr r) \<Rightarrow> Some (Inr r))))))"

section \<open>The properties in the specification's words\<close>

text \<open>An attempt of the Readiness Prober yields a success status.\<close>

definition probe_ok :: "http_outcome \<Rightarrow> bool" where
  "probe_ok out = (case out of Response r \<Rightarrow> status_code r = 200 | RequestFailed \<Rightarrow> False)"



text \<open>A field of an object, null when absent.\<close>

definition field :: "(string \<times> json) list \<Rightarrow> string \<Rightarrow> json" where
  "field d k = (case map_of d k of None \<Rightarrow> JNull | Some v \<Rightarrow> v)"





text \<open>The entry of the execution history for a job identifier.\<close>

fun history_entry :: "(string \<times> json) list \<Rightarrow> json \<Rightarrow> json option" where
  "history_entry h (JStr k) = map_of h k"
| "history_entry h _ = None"

text \<open>A job identifier that can be a dict key.\<close>

fun hashable :: "json \<Rightarrow> bool" where
  "hashable (JList xs) = False"
| "hashable (JObj d) = False"
| "hashable _ = True"

section \<open>A concrete engine\<close>

text \<open>
  An engine that is reachable at once, accepts every upload, queues the workflow as job
  \<open>p1\<close>, reports on the socket that the job is done and answers the history request
  with the given document. Every download gives the bytes \<open>hi\<close>, \<open>aGk=\<close> in base64.
\<close>

definition ok_response :: response where
  "ok_response = \<lparr>status_code = 200, text_body = [], json_body = None, content = []\<rparr>"

text \<open>The text frames the engine sends, and what \<open>json.loads\<close> makes of them.\<close>

definition done_message :: string where
  \<open>done_message = ''{"type":"executing","data":{"node":null,"prompt_id":"p1"}}''\<close>

definition done_event :: json where
  "done_event =
     JObj [(''type'', JStr ''executing''),
           (''data'', JObj [(''node'', JNull), (''prompt_id'', JStr ''p1'')])]"

definition other_message :: string where
  \<open>other_message = ''{"type":"executing","data":{"node":null,"prompt_id":"p2"}}''\<close>

definition other_event :: json where
  "other_event =
     JObj [(''type'', JStr ''executing''),
           (''data'', JObj [(''node'', JNull), (''prompt_id'', JStr ''p2'')])]"

definition failed_message :: string where
  \<open>failed_message =
     ''{"type":"execution_error","data":{"prompt_id":"p1","exception_message":"boom"}}''\<close>

definition failed_event :: json where
  "failed_event =
     JObj [(''type'', JStr ''execution_error''),
           (''data'', JObj [(''prompt_id'', JStr ''p1''),
                            (''exception_message'', JStr ''boom'')])]"

definition parse_message :: "string \<Rightarrow> json option" where
  "parse_message s =
     (if s = done_message then Some done_event
      else if s = other_message then Some other_event
      else if s = failed_message then Some failed_event
      else None)"

definition engine :: "json \<Rightarrow> env" where
  "engine history =
     \<lparr>json_loads = parse_message,
      py_repr = (\<lambda>v. ''?''),
      exc_text = (\<lambda>e. ''error''),
      b64decode = (\<lambda>s. if s = ''aGk='' then Some ''hi'' else None),
      b64encode = (\<lambda>b. if b = ''hi'' then ''aGk='' else []),
      COMFY_HOST = ''127.0.0.1:8188'',
      CHECK_RETRIES = 500,
      COMFY_ORG_API_KEY = None,
      uuid4 = ''c1'',
      get_root = (\<lambda>i. Response ok_response),
      post_upload_image = (\<lambda>i name blob. Uploaded ok_response),
      post_prompt =
        (\<lambda>payload. Response (ok_response\<lparr>json_body :=
                                  Some (JObj [(''prompt_id'', JStr ''p1'')])\<rparr>)),
      ws_connect = (\<lambda>url. True),
      ws_settimeout = None,
      ws_frames = [RecvTimeout, TextFrame other_message, TextFrame done_message],
      get_history = (\<lambda>p. Response (ok_response\<lparr>json_body := Some history\<rparr>)),
      get_view = (\<lambda>n filename subfolder t. Response (ok_response\<lparr>content := ''hi''\<rparr>))\<rparr>"

definition job_of :: "json \<Rightarrow> json" where
  "job_of job_input = JObj [(''id'', JStr ''j1''), (''input'', job_input)]"

definition plain_input :: json where
  "plain_input = JObj [(''workflow'', JObj [(''3'', JObj [])])]"

text \<open>The history of job \<open>p1\<close> with one node that recorded one entry of the given kind.\<close>

definition history_with :: "string \<Rightarrow> json \<Rightarrow> json" where
  "history_with kind info =
     JObj [(''p1'', JObj [(''outputs'', JObj [(''9'', JObj [(kind, JList [info])])])])]"

definition temp_entry :: json where
  "temp_entry = JObj [(''filename'', JStr ''a.mp4''), (''subfolder'', JStr []),
                      (''type'', JStr ''temp'')]"

text \<open>The same engine when the job fails, and when the socket cannot be opened.\<close>

definition failing_engine :: env where
  "failing_engine = (engine JNull)\<lparr>ws_frames := [BinaryFrame ''x'', TextFrame failed_message]\<rparr>"

definition refusing_engine :: env where
  "refusing_engine = (engine JNull)\<lparr>ws_connect := (\<lambda>url. False)\<rparr>"

text \<open>The same engine with a negative receive timeout in the environment, with a
  connection that drops during the wait, and with a text frame that is not JSON.\<close>

definition bad_timeout_engine :: env where
  "bad_timeout_engine =
     (engine JNull)\<lparr>ws_settimeout := Some ''Timeout value out of range''\<rparr>"




text \<open>An engine whose first probe fails, whose second is answered with status 503 and
  whose later ones succeed.\<close>

definition late_probe :: "nat \<Rightarrow> http_outcome" where
  "late_probe i =
     (if i = 0 then RequestFailed
      else if i = 1 then Response (ok_response\<lparr>status_code := 503\<rparr>)
      else Response ok_response)"

text \<open>Requests with an \<open>images\<close> field: an entry whose values are numbers, and a flat
  string.\<close>

definition numeric_image_input :: json where
  "numeric_image_input =
     JObj [(''workflow'', JObj [(''3'', JObj [])]),
           (''images'', JList [JObj [(''name'', JNum 1), (''image'', JNum 2)]])]"

definition flat_images_input :: json where
  "flat_images_input =
     JObj [(''workflow'', JObj [(''3'', JObj [])]), (''images'', JStr ''aGk='')]"

text \<open>What validation makes of \<open>plain_input\<close>, and the engine's answer to the submission.\<close>

definition plain_validated :: validated where
  "plain_validated =
     \<lparr>workflow = JObj [(''3'', JObj [])], images = JNull, comfy_org_api_key = JNull\<rparr>"

definition queued_p1 :: json where
  "queued_p1 = JObj [(''prompt_id'', JStr ''p1'')]"

section \<open>strip_data_uri: the prefix up to the first comma\<close>

lemma split_once_first: "c \<notin> set p \<Longrightarrow> split_once c (p @ c # r) = [p, r]"
  by (induction p) auto

text \<open>
  C8. A string without a comma is returned unchanged, so stripping it again changes
  nothing; a string with a comma is some comma-free prefix, the comma and the result:
  exactly the prefix up to and including the first comma is removed.
\<close>

theorem strip_data_uri_spec:
  "(CHR '','' \<notin> set s \<longrightarrow>
      strip_data_uri s = s \<and> strip_data_uri (strip_data_uri s) = strip_data_uri s) \<and>
   (CHR '','' \<in> set s \<longrightarrow>
      (\<exists>p. CHR '','' \<notin> set p \<and> s = p @ CHR '','' # strip_data_uri s))"
proof (intro conjI impI)
  assume "CHR '','' \<notin> set s"
  then show "strip_data_uri s = s" by (simp add: strip_data_uri_def)
  then show "strip_data_uri (strip_data_uri s) = strip_data_uri s" by simp
next
  assume mem: "CHR '','' \<in> set s"
  from split_list_first [OF mem]
  obtain p r where s: "s = p @ CHR '','' # r" and p: "CHR '','' \<notin> set p"
    by blast
  from p have "split_once (CHR '','') (p @ CHR '','' # r) = [p, r]"
    by (rule split_once_first)
  then have r: "strip_data_uri s = r"
    unfolding s by (simp add: strip_data_uri_def)
  show "\<exists>p. CHR '','' \<notin> set p \<and> s = p @ CHR '','' # strip_data_uri s"
    unfolding r using s p by (intro exI [of _ p] conjI)
qed

theorem strip_data_uri_spec_witness:
  "CHR '','' \<notin> set ''aGk='' \<and> strip_data_uri ''aGk='' = ''aGk='' \<and>
   strip_data_uri (strip_data_uri ''aGk='') = strip_data_uri ''aGk='' \<and>
   CHR '','' \<in> set ''a,b,c'' \<and>
   (\<exists>p. CHR '','' \<notin> set p \<and> ''a,b,c'' = p @ CHR '','' # strip_data_uri ''a,b,c'')"
  using strip_data_uri_spec [of "''aGk=''"] strip_data_uri_spec [of "''a,b,c''"]
  by simp

section \<open>check_server: the first success within the retry count\<close>

lemma check_loop_fail:
  "\<not> fst (check_loop probe k i) \<longleftrightarrow> (\<forall>j. i \<le> j \<and> j < i + k \<longrightarrow> \<not> probe_ok (probe j))"
proof (induction k arbitrary: i)
  case 0
  then show ?case by auto
next
  case (Suc k)
  have range: "(i \<le> j \<and> j < i + Suc k) = (j = i \<or> (Suc i \<le> j \<and> j < Suc i + k))" for j
    by arith
  have step: "\<not> fst (check_loop probe (Suc k) i) \<longleftrightarrow>
      (\<not> probe_ok (probe i) \<and> \<not> fst (check_loop probe k (Suc i)))"
    by (simp add: probe_ok_def split: http_outcome.splits)
  show ?case
    unfolding step Suc.IH range by blast
qed

lemma check_loop_count_fail:
  "\<not> fst (check_loop probe k i) \<Longrightarrow> snd (check_loop probe k i) = i + k"
  by (induction k arbitrary: i) (auto split: http_outcome.splits if_splits)

lemma check_loop_count_ok:
  "fst (check_loop probe k i) \<Longrightarrow>
   \<exists>j. i \<le> j \<and> j < i + k \<and> snd (check_loop probe k i) = Suc j \<and> probe_ok (probe j) \<and>
       (\<forall>j'. i \<le> j' \<and> j' < j \<longrightarrow> \<not> probe_ok (probe j'))"
proof (induction k arbitrary: i)
  case 0
  then show ?case by simp
next
  case (Suc k)
  show ?case
  proof (cases "probe_ok (probe i)")
    case True
    then have "snd (check_loop probe (Suc k) i) = Suc i"
      by (auto simp: probe_ok_def split: http_outcome.splits)
    with True show ?thesis by (intro exI [of _ i]) auto
  next
    case False
    then have eq: "check_loop probe (Suc k) i = check_loop probe k (Suc i)"
      by (auto simp: probe_ok_def split: http_outcome.splits)
    with Suc.prems have "fst (check_loop probe k (Suc i))" by simp
    from Suc.IH [OF this] obtain j where j: "Suc i \<le> j" "j < Suc i + k"
      "snd (check_loop probe k (Suc i)) = Suc j" "probe_ok (probe j)"
      "\<forall>j'. Suc i \<le> j' \<and> j' < j \<longrightarrow> \<not> probe_ok (probe j')" by blast
    have "\<forall>j'. i \<le> j' \<and> j' < j \<longrightarrow> \<not> probe_ok (probe j')"
    proof (intro allI impI)
      fix j' assume "i \<le> j' \<and> j' < j"
      then have "j' = i \<or> (Suc i \<le> j' \<and> j' < j)" by arith
      with False j(5) show "\<not> probe_ok (probe j')" by blast
    qed
    with j eq show ?thesis by (intro exI [of _ j]) auto
  qed
qed

text \<open>
  C5. With retry count \<open>n\<close>, \<open>check_server\<close> returns \<open>True\<close> exactly when one of the first
  \<open>n\<close> probes is answered with status 200; it then stops at the first such probe, having
  sent no further one; it returns \<open>False\<close> only after sending all \<open>n\<close> probes.
\<close>

theorem check_server_spec:
  "(fst (check_server n probe) \<longleftrightarrow> (\<exists>j < nat n. probe_ok (probe j))) \<and>
   (fst (check_server n probe) \<longrightarrow>
      (\<exists>j < nat n. snd (check_server n probe) = Suc j \<and> probe_ok (probe j) \<and>
         (\<forall>j' < j. \<not> probe_ok (probe j')))) \<and>
   (\<not> fst (check_server n probe) \<longrightarrow> snd (check_server n probe) = nat n)"
proof (intro conjI impI)
  show "fst (check_server n probe) \<longleftrightarrow> (\<exists>j < nat n. probe_ok (probe j))"
    using check_loop_fail [of probe "nat n" 0] by (auto simp: check_server_def)
next
  assume "fst (check_server n probe)"
  then show "\<exists>j < nat n. snd (check_server n probe) = Suc j \<and> probe_ok (probe j) \<and>
         (\<forall>j' < j. \<not> probe_ok (probe j'))"
    using check_loop_count_ok [of probe "nat n" 0] by (auto simp: check_server_def)
next
  assume "\<not> fst (check_server n probe)"
  then show "snd (check_server n probe) = nat n"
    using check_loop_count_fail [of probe "nat n" 0] by (simp add: check_server_def)
qed

text \<open>Three probes allowed and the third one answered with 200; two allowed and none.\<close>

theorem check_server_spec_witness:
  "check_server 3 late_probe = (True, 3) \<and> probe_ok (late_probe 2) \<and>
   \<not> probe_ok (late_probe 0) \<and> \<not> probe_ok (late_probe 1) \<and>
   check_server 2 late_probe = (False, 2)"
  using check_server_spec [of 3 late_probe] check_server_spec [of 2 late_probe]
  by (simp add: check_server_def late_probe_def ok_response_def probe_ok_def
      numeral_3_eq_3 numeral_2_eq_2)

section \<open>validate_input: the images field\<close>

lemma images_invalid_iff:
  "images_invalid imgs \<longleftrightarrow>
   \<not> (\<exists>xs. imgs = JList xs \<and>
          (\<forall>x \<in> set xs. \<exists>e. x = JObj e \<and> map_of e ''name'' \<noteq> None \<and>
                            map_of e ''image'' \<noteq> None))"
proof -
  have entry: "image_entry_ok x \<longleftrightarrow>
      (\<exists>e. x = JObj e \<and> map_of e ''name'' \<noteq> None \<and> map_of e ''image'' \<noteq> None)" for x
    by (cases x) simp_all
  show ?thesis
    by (cases imgs) (simp_all add: list_all_iff entry)
qed

text \<open>
  C4, as the code has it. For a request object (given as such or as a string that parses
  to it) with a workflow and an \<open>images\<close> field, both not null, validation fails with the
  invalid-images message exactly when the field is not a list of objects that each have
  the keys \<open>name\<close> and \<open>image\<close>; otherwise it succeeds. The values under the two keys
  are not looked at.
\<close>

theorem validate_input_images:
  assumes "job_input = JObj d \<or> (\<exists>s. job_input = JStr s \<and> loads s = Some (JObj d))"
    and "map_of d ''workflow'' = Some w" and "w \<noteq> JNull"
    and "map_of d ''images'' = Some imgs" and "imgs \<noteq> JNull"
  shows "validate_input loads job_input =
     (if \<exists>xs. imgs = JList xs \<and>
            (\<forall>x \<in> set xs. \<exists>e. x = JObj e \<and> map_of e ''name'' \<noteq> None \<and>
                              map_of e ''image'' \<noteq> None)
      then Inr (Some \<lparr>workflow = w, images = imgs,
                      comfy_org_api_key = field d ''comfy_org_api_key''\<rparr>, None)
      else Inr (None, Some invalid_images_msg))"
proof -
  have fields: "validate_fields (JObj d) =
     (if images_invalid imgs then Inr (None, Some invalid_images_msg)
      else Inr (Some \<lparr>workflow = w, images = imgs,
                      comfy_org_api_key = field d ''comfy_org_api_key''\<rparr>, None))"
    using assms(2-5) by (simp add: validate_fields_def field_def)
  from assms(1) have "validate_input loads job_input = validate_fields (JObj d)"
    by (auto simp: validate_input_def)
  then show ?thesis
    unfolding fields images_invalid_iff by simp
qed

text \<open>An entry whose \<open>name\<close> and \<open>image\<close> are numbers passes validation.\<close>

theorem validate_input_images_counterexample:
  "validate_input (json_loads (engine JNull)) numeric_image_input =
     Inr (Some \<lparr>workflow = JObj [(''3'', JObj [])],
                images = JList [JObj [(''name'', JNum 1), (''image'', JNum 2)]],
                comfy_org_api_key = JNull\<rparr>, None)"
  by (simp add: validate_input_def validate_fields_def numeric_image_input_def)

text \<open>The scenario of the specification: \<open>images\<close> as a flat string.\<close>

theorem validate_input_images_witness:
  "validate_input (json_loads (engine JNull)) flat_images_input =
     Inr (None, Some invalid_images_msg)"
  using validate_input_images [of flat_images_input
      "[(''workflow'', JObj [(''3'', JObj [])]), (''images'', JStr ''aGk='')]"
      "json_loads (engine JNull)" "JObj [(''3'', JObj [])]" "JStr ''aGk=''"]
  by (simp add: flat_images_input_def)

section \<open>wait_for_completion: the terminal events\<close>
















lemma messages_differ:
  "done_message \<noteq> other_message" "done_message \<noteq> failed_message"
  "other_message \<noteq> failed_message"
  by (simp_all add: done_message_def other_message_def failed_message_def)

lemma parse_messages:
  "parse_message done_message = Some done_event"
  "parse_message other_message = Some other_event"
  "parse_message failed_message = Some failed_event"
  using messages_differ by (simp_all add: parse_message_def)


section \<open>wait_for_completion: closing the socket\<close>

lemma wait_loop_ops:
  "\<exists>k. snd (wait_loop loads pid fs) = replicate k Recv \<and> k \<le> length fs"
proof (induction fs)
  case Nil
  show ?case by simp
next
  case (Cons a fs)
  then obtain k where k: "snd (wait_loop loads pid fs) = replicate k Recv" "k \<le> length fs"
    by blast
  show ?case
  proof (cases "on_frame loads pid a")
    case Continue
    with k show ?thesis
      by (intro exI [of _ "Suc k"]) (auto split: prod.splits)
  next
    case Return
    then show ?thesis by (intro exI [of _ "Suc 0"]) simp
  next
    case (Raise e)
    then show ?thesis by (intro exI [of _ "Suc 0"]) simp
  qed
qed

text \<open>
  C7, as the code has it. Once the \<open>try\<close> statement is entered, that is once the socket
  is connected and its timeout set, every way out of \<open>wait_for_completion\<close> (the terminal
  success event, the terminal error event, any exception raised during the wait) ends
  with the call of \<open>ws.close\<close>, made once, after the last receive. When \<open>ws.connect\<close>
  itself fails, the exception leaves the function before the \<open>try\<close> statement is entered
  and \<open>ws.close\<close> is not called.
\<close>

theorem wait_for_completion_closes:
  "(ws_connect env (''ws://'' @ COMFY_HOST env @ ''/ws?clientId='' @ cid) \<and>
    ws_settimeout env = None \<and>
    fst (wait_for_completion env pid cid) \<noteq> None \<longrightarrow>
      (\<exists>k. snd (wait_for_completion env pid cid) =
             [Connect, SetTimeout] @ replicate k Recv @ [Close])) \<and>
   (\<not> ws_connect env (''ws://'' @ COMFY_HOST env @ ''/ws?clientId='' @ cid) \<longrightarrow>
      wait_for_completion env pid cid = (Some (Inl WebSocketException), [Connect]))"
proof (intro conjI impI)
  assume a: "ws_connect env (''ws://'' @ COMFY_HOST env @ ''/ws?clientId='' @ cid) \<and>
    ws_settimeout env = None \<and>
    fst (wait_for_completion env pid cid) \<noteq> None"
  obtain r ops where w: "wait_loop (json_loads env) pid (ws_frames env) = (r, ops)"
    by (cases "wait_loop (json_loads env) pid (ws_frames env)")
  from wait_loop_ops [of "json_loads env" pid "ws_frames env"] w
  obtain k where k: "ops = replicate k Recv" by auto
  from a w have "r \<noteq> None"
    by (auto simp: wait_for_completion_def split: option.splits)
  with a w k show "\<exists>k. snd (wait_for_completion env pid cid) =
             [Connect, SetTimeout] @ replicate k Recv @ [Close]"
    by (intro exI [of _ k]) (auto simp: wait_for_completion_def)
next
  assume "\<not> ws_connect env (''ws://'' @ COMFY_HOST env @ ''/ws?clientId='' @ cid)"
  then show "wait_for_completion env pid cid = (Some (Inl WebSocketException), [Connect])"
    by (simp add: wait_for_completion_def)
qed

text \<open>The connect fails: the only call made on the socket is the connect. The connect
  succeeds and the setting of the timeout fails: the socket is left without the call of
  \<open>ws.close\<close>.\<close>

theorem wait_for_completion_closes_counterexample:
  "wait_for_completion refusing_engine (JStr ''p1'') ''c1'' =
     (Some (Inl WebSocketException), [Connect]) \<and>
   wait_for_completion bad_timeout_engine (JStr ''p1'') ''c1'' =
     (Some (Inl (ValueError ''Timeout value out of range'')), [Connect, SetTimeout])"
  by (simp add: wait_for_completion_def refusing_engine_def bad_timeout_engine_def engine_def)

theorem wait_for_completion_closes_witness:
  "ws_connect failing_engine (''ws://'' @ COMFY_HOST failing_engine @ ''/ws?clientId='' @ ''c1'') \<and>
   ws_settimeout failing_engine = None \<and>
   fst (wait_for_completion failing_engine (JStr ''p1'') ''c1'') \<noteq> None \<and>
   (\<exists>k. snd (wait_for_completion failing_engine (JStr ''p1'') ''c1'') =
          [Connect, SetTimeout] @ replicate k Recv @ [Close]) \<and>
   \<not> ws_connect refusing_engine (''ws://'' @ COMFY_HOST refusing_engine @ ''/ws?clientId='' @ ''c1'') \<and>
   wait_for_completion refusing_engine (JStr ''p1'') ''c1'' =
     (Some (Inl WebSocketException), [Connect])"
proof -
  note parse = parse_messages
  have c: "ws_connect failing_engine
      (''ws://'' @ COMFY_HOST failing_engine @ ''/ws?clientId='' @ ''c1'')"
    by (simp add: failing_engine_def engine_def)
  have t: "ws_settimeout failing_engine = None"
    by (simp add: failing_engine_def engine_def)
  have r: "fst (wait_for_completion failing_engine (JStr ''p1'') ''c1'') \<noteq> None"
    by (simp add: wait_for_completion_def failing_engine_def engine_def on_frame_def parse
        on_message_def on_execution_error_def failed_event_def)
  have n: "\<not> ws_connect refusing_engine
      (''ws://'' @ COMFY_HOST refusing_engine @ ''/ws?clientId='' @ ''c1'')"
    by (simp add: refusing_engine_def engine_def)
  from wait_for_completion_closes [of failing_engine "''c1''" "JStr ''p1''"] c t r
  have 1: "\<exists>k. snd (wait_for_completion failing_engine (JStr ''p1'') ''c1'') =
          [Connect, SetTimeout] @ replicate k Recv @ [Close]" by blast
  from wait_for_completion_closes [of refusing_engine "''c1''" "JStr ''p1''"] n
  have 2: "wait_for_completion refusing_engine (JStr ''p1'') ''c1'' =
     (Some (Inl WebSocketException), [Connect])" by blast
  from c t r 1 n 2 show ?thesis by blast
qed

section \<open>handler: payloads, outputs and the history\<close>

text \<open>An exception of \<open>requests.post\<close> that is not a \<open>RequestException\<close> leaves
  \<open>upload_images\<close>, which the handler calls before its \<open>try\<close> statement.\<close>

lemma upload_loop_raises:
  assumes "py_getitem entry ''name'' = Inr name"
    and "py_getitem entry ''image'' = Inr img"
    and "b64decode env (strip_data_uri (py_str env img)) = Some blob"
    and "post_upload_image env i name blob = UploadRaised e"
  shows "upload_loop env i (entry # rest) = Inl e"
  using assms by simp

text \<open>
  C2. A payload that is a list: \<open>validate_input\<close> calls \<open>job_input.get\<close> (line 31), the
  \<open>AttributeError\<close> is raised before the \<open>try\<close> statement of the handler and leaves the
  handler, whatever the engine does.
\<close>

theorem handler_list_payload:
  "handler env (job_of (JList xs)) = Some (Inl AttributeError)"
  by (simp add: handler_def job_of_def validate_input_def validate_fields_def)

text \<open>A job that gets as far as the collection of its outputs: what the handler returns
  is what \<open>collect_outputs\<close> makes, an exception turned into an error result.\<close>

lemma handler_completed:
  assumes "py_get job ''input'' JNull = Inr job_input"
    and "validate_input (json_loads env) job_input = Inr (Some v, None)"
    and "fst (check_server (CHECK_RETRIES env) (get_root env))"
    and "upload_images env (images v) = Inr None"
    and "queue_workflow env (workflow v) (uuid4 env) (comfy_org_api_key v) = Inr queued"
    and "py_get queued ''prompt_id'' JNull = Inr pid"
    and "truthy pid"
    and "fst (wait_for_completion env pid (uuid4 env)) = Some (Inr ())"
  shows "handler env job =
     Some (case collect_outputs env pid of
             Inl e \<Rightarrow> Inr (error_result (str_exc env e))
           | Inr r \<Rightarrow> Inr r)"
proof -
  have "run_job env v (uuid4 env) = Some (collect_outputs env pid)"
    using assms(5-8) by (simp add: run_job_def)
  then show ?thesis
    using assms(1-4) by (simp add: handler_def is_set_def split: sum.splits)
qed

text \<open>
  C6. When the job has completed and the loops over its recorded outputs leave the three
  buckets empty, the handler returns the no-outputs value.
\<close>

theorem handler_no_outputs:
  assumes "py_get job ''input'' JNull = Inr job_input"
    and "validate_input (json_loads env) job_input = Inr (Some v, None)"
    and "fst (check_server (CHECK_RETRIES env) (get_root env))"
    and "upload_images env (images v) = Inr None"
    and "queue_workflow env (workflow v) (uuid4 env) (comfy_org_api_key v) = Inr queued"
    and "py_get queued ''prompt_id'' JNull = Inr pid"
    and "truthy pid"
    and "fst (wait_for_completion env pid (uuid4 env)) = Some (Inr ())"
    and "fetch_history env pid = Inr history"
    and "py_get_key history pid (JObj []) = Inr prompt_history"
    and "py_get prompt_history ''outputs'' (JObj []) = Inr outputs"
    and "py_values outputs = Inr node_outputs"
    and "for_each (collect_node env) node_outputs (0, [], [], []) = Inr (n, [], [], [])"
  shows "handler env job = Some (Inr no_outputs_result)"
proof -
  have "collect_outputs env pid = Inr no_outputs_result"
    using assms(9-13) by (simp add: collect_outputs_def build_response_def)
  with handler_completed [OF assms(1-8)] show ?thesis by simp
qed

text \<open>
  C10. When the job has completed and the history answer is an object without an entry
  for the job identifier, or with an entry that is an object without \<open>outputs\<close>, the
  handler returns the no-outputs value.
\<close>

theorem handler_no_history_entry:
  assumes "py_get job ''input'' JNull = Inr job_input"
    and "validate_input (json_loads env) job_input = Inr (Some v, None)"
    and "fst (check_server (CHECK_RETRIES env) (get_root env))"
    and "upload_images env (images v) = Inr None"
    and "queue_workflow env (workflow v) (uuid4 env) (comfy_org_api_key v) = Inr queued"
    and "py_get queued ''prompt_id'' JNull = Inr pid"
    and "truthy pid"
    and "fst (wait_for_completion env pid (uuid4 env)) = Some (Inr ())"
    and "fetch_history env pid = Inr (JObj h)"
    and "hashable pid"
    and "history_entry h pid = None \<or>
         (\<exists>e. history_entry h pid = Some (JObj e) \<and> map_of e ''outputs'' = None)"
  shows "handler env job = Some (Inr no_outputs_result)"
proof -
  have "\<exists>e. py_get_key (JObj h) pid (JObj []) = Inr (JObj e) \<and> map_of e ''outputs'' = None"
    using assms(10,11) by (cases pid) auto
  then obtain e where "py_get_key (JObj h) pid (JObj []) = Inr (JObj e)"
    "map_of e ''outputs'' = None" by blast
  then have "collect_outputs env pid = Inr no_outputs_result"
    using assms(9) by (simp add: collect_outputs_def build_response_def)
  with handler_completed [OF assms(1-8)] show ?thesis by simp
qed

text \<open>The concrete engine completes the plain job, whatever its history answer.\<close>

lemma engine_completes:
  "py_get (job_of plain_input) ''input'' JNull = Inr plain_input"
  "validate_input (json_loads (engine h)) plain_input = Inr (Some plain_validated, None)"
  "fst (check_server (CHECK_RETRIES (engine h)) (get_root (engine h)))"
  "upload_images (engine h) (images plain_validated) = Inr None"
  "queue_workflow (engine h) (workflow plain_validated) (uuid4 (engine h))
     (comfy_org_api_key plain_validated) = Inr queued_p1"
  "py_get queued_p1 ''prompt_id'' JNull = Inr (JStr ''p1'')"
  "truthy (JStr ''p1'')"
  "fst (wait_for_completion (engine h) (JStr ''p1'') (uuid4 (engine h))) = Some (Inr ())"
  "fetch_history (engine h) (JStr ''p1'') = Inr h"
proof -
  show "py_get (job_of plain_input) ''input'' JNull = Inr plain_input"
    by (simp add: job_of_def)
  show "validate_input (json_loads (engine h)) plain_input = Inr (Some plain_validated, None)"
    by (simp add: validate_input_def validate_fields_def plain_input_def plain_validated_def)
  have "check_loop (\<lambda>i. Response ok_response) (Suc k) 0 = (True, Suc 0)" for k
    by (simp add: ok_response_def)
  from this [of 499]
  show "fst (check_server (CHECK_RETRIES (engine h)) (get_root (engine h)))"
    by (simp add: check_server_def engine_def)
  show "upload_images (engine h) (images plain_validated) = Inr None"
    by (simp add: upload_images_def plain_validated_def)
  show "queue_workflow (engine h) (workflow plain_validated) (uuid4 (engine h))
     (comfy_org_api_key plain_validated) = Inr queued_p1"
    by (simp add: queue_workflow_def engine_def plain_validated_def queued_p1_def
        ok_response_def raise_for_status_def)
  show "py_get queued_p1 ''prompt_id'' JNull = Inr (JStr ''p1'')"
    by (simp add: queued_p1_def)
  show "truthy (JStr ''p1'')" by simp
  have parse: "parse_message done_message = Some done_event"
    "parse_message other_message = Some other_event"
    using messages_differ by (simp_all add: parse_message_def)
  show "fst (wait_for_completion (engine h) (JStr ''p1'') (uuid4 (engine h))) = Some (Inr ())"
    by (simp add: wait_for_completion_def engine_def on_frame_def parse on_message_def
        on_executing_def done_event_def other_event_def)
  show "fetch_history (engine h) (JStr ''p1'') = Inr h"
    by (simp add: fetch_history_def engine_def ok_response_def raise_for_status_def)
qed

text \<open>A history whose only entry is a transient image.\<close>

theorem handler_no_outputs_witness:
  "handler (engine (history_with ''images'' temp_entry)) (job_of plain_input) =
     Some (Inr no_outputs_result)"
proof -
  let ?h = "history_with ''images'' temp_entry"
  let ?node = "JObj [(''images'', JList [temp_entry])]"
  have a: "py_get_key ?h (JStr ''p1'') (JObj []) = Inr (JObj [(''outputs'', JObj [(''9'', ?node)])])"
    by (simp add: history_with_def)
  have b: "py_get (JObj [(''outputs'', JObj [(''9'', ?node)])]) ''outputs'' (JObj []) =
      Inr (JObj [(''9'', ?node)])"
    by simp
  have c: "py_values (JObj [(''9'', ?node)]) = Inr [?node]"
    by (simp add: clearjunk.simps)
  have d: "for_each (collect_node (engine ?h)) [?node] (0, [], [], []) = Inr (0, [], [], [])"
    by (simp add: collect_node_def collect_kind_def image_entry_def temp_entry_def)
  show ?thesis
    by (rule handler_no_outputs [OF engine_completes a b c d])
qed

text \<open>An empty history, and a history whose entry has no \<open>outputs\<close>.\<close>

theorem handler_no_history_entry_witness:
  "handler (engine (JObj [])) (job_of plain_input) = Some (Inr no_outputs_result) \<and>
   handler (engine (JObj [(''p1'', JObj [(''status'', JStr ''ok'')])])) (job_of plain_input) =
     Some (Inr no_outputs_result)"
proof -
  have a: "hashable (JStr ''p1'')" by simp
  have b: "history_entry [] (JStr ''p1'') = None \<or>
      (\<exists>e. history_entry [] (JStr ''p1'') = Some (JObj e) \<and> map_of e ''outputs'' = None)"
    by simp
  have c: "history_entry [(''p1'', JObj [(''status'', JStr ''ok'')])] (JStr ''p1'') = None \<or>
      (\<exists>e. history_entry [(''p1'', JObj [(''status'', JStr ''ok'')])] (JStr ''p1'') = Some (JObj e) \<and>
           map_of e ''outputs'' = None)"
    by simp
  show ?thesis
    using handler_no_history_entry [OF engine_completes a b]
      handler_no_history_entry [OF engine_completes a c]
    by (rule conjI)
qed

text \<open>
  C1. The job recorded one entry of type \<open>temp\<close>. As a video or as a gif the entry is
  downloaded and returned in its bucket: the loops of lines 196 to 228 have no test of
  the type. As an image it is passed over (lines 178 and 179) and the handler returns the
  no-outputs value.
\<close>

theorem handler_temp_outputs:
  "handler (engine (history_with ''videos'' temp_entry)) (job_of plain_input) =
     Some (Inr (JObj [(''videos'',
       JList [JObj [(''filename'', JStr ''a.mp4''), (''type'', JStr ''base64''),
                    (''data'', JStr ''aGk='')]])])) \<and>
   handler (engine (history_with ''gifs'' temp_entry)) (job_of plain_input) =
     Some (Inr (JObj [(''gifs'',
       JList [JObj [(''filename'', JStr ''a.mp4''), (''type'', JStr ''base64''),
                    (''data'', JStr ''aGk='')]])])) \<and>
   handler (engine (history_with ''images'' temp_entry)) (job_of plain_input) =
     Some (Inr no_outputs_result)"
  by code_simp

end
